theory Spec2Isabelle
  imports Main
begin

section \<open>The sreq HTTP client: response wrapper and send pipeline\<close>

text \<open>
  A shallow embedding of \<^verbatim>\<open>vendor/github.com/winterssy/sreq\<close>: \<^verbatim>\<open>response.go\<close>
  (the Response accessors) and \<^verbatim>\<open>client.go\<close> (configuration, hook chains, the retry
  loop and the single exchange). Go pointers to mutable objects become values that
  are passed in and returned updated; a nil pointer is \<open>None\<close>; a nil-pointer
  dereference is the outcome \<open>Panics\<close>.
\<close>

subsection \<open>Errors\<close>

text \<open>
  Go's \<^verbatim>\<open>error\<close> values. \<open>ErrorString\<close> is what \<^verbatim>\<open>errors.New\<close> and \<^verbatim>\<open>fmt.Errorf\<close> build;
  \<open>OpError op e\<close> is the struct literal \<^verbatim>\<open>&Error{Op: op, Err: e}\<close>; the three sentinels
  are the package variables that client.go names; \<open>Canceled\<close> and \<open>DeadlineExceeded\<close>
  are the two values a context's \<^verbatim>\<open>Err()\<close> can return; \<open>Foreign n\<close> stands for any error
  made outside the package (transport, hooks, file system, decoders).
\<close>

datatype error =
    ErrorString string
  | OpError string error
  | ErrUnexpectedTransport
  | ErrNilCookieJar
  | ErrNoCookie
  | Canceled
  | DeadlineExceeded
  | Foreign nat

datatype 'a go = Panics | Returns 'a

subsection \<open>Formatting an integer with the verb \<^verbatim>\<open>%d\<close>\<close>

definition digit :: "nat \<Rightarrow> char" where
  "digit n = ''0123456789'' ! (n mod 10)"

function dec_nat :: "nat \<Rightarrow> string" where
  "dec_nat n = (if n < 10 then [digit n] else dec_nat (n div 10) @ [digit n])"
  by pat_completeness auto
termination
  by (relation "measure id") auto

definition fmt_d :: "int \<Rightarrow> string" where
  "fmt_d i = (if i < 0 then CHR ''-'' # dec_nat (nat (- i)) else dec_nat (nat i))"

text \<open>Go's integer division truncates toward zero.\<close>

definition go_quot :: "int \<Rightarrow> int \<Rightarrow> int" where
  "go_quot a b = sgn a * sgn b * (\<bar>a\<bar> div \<bar>b\<bar>)"

subsection \<open>Bodies, raw requests and raw responses\<close>

text \<open>
  A body is an \<^verbatim>\<open>io.ReadCloser\<close>. Its dynamic type matters to \<^verbatim>\<open>Client.do\<close>, which
  asserts \<^verbatim>\<open>*gzip.Reader\<close>: \<open>Plain\<close> is any other reader, \<open>Gzip\<close> a live gzip reader,
  \<open>NilGzip\<close> the nil \<^verbatim>\<open>*gzip.Reader\<close> that a failed \<^verbatim>\<open>gzip.NewReader\<close> leaves behind.
  \<open>unread\<close> is what reading to the end still yields, \<open>fault\<close> the error such a read
  ends with (\<open>None\<close> for a clean EOF), \<open>cfault\<close> the error its Close returns;
  \<open>reads\<close> and \<open>closes\<close> count the Read-to-end and Close calls that the body, or
  the reader it wraps, has received.
\<close>

datatype body_kind = Plain | Gzip | NilGzip

record body =
  kind :: body_kind
  unread :: string
  fault :: "error option"
  cfault :: "error option"
  reads :: nat
  closes :: nat

definition ReadAll :: "body \<Rightarrow> (string \<times> error option \<times> body) go" where
  "ReadAll b =
     (if kind b = NilGzip then Panics
      else Returns (unread b, fault b, b\<lparr>unread := [], reads := Suc (reads b)\<rparr>))"

definition Close :: "body \<Rightarrow> (error option \<times> body) go" where
  "Close b =
     (if kind b = NilGzip then Panics else Returns (cfault b, b\<lparr>closes := Suc (closes b)\<rparr>))"

record cookie =
  Name :: string
  Value :: string

text \<open>
  A request body is a single-use stream too; the package only drains it.
\<close>

record req_body =
  pending :: string
  rfault :: "error option"
  rcfault :: "error option"

text \<open>
  A \<^verbatim>\<open>context.Context\<close>, as the two places that consult it see it. \<open>Err_after i\<close> is
  what \<^verbatim>\<open>ctx.Err()\<close> returns right after the exchange of attempt \<open>i\<close>;
  \<open>Done_wins i\<close> is \<open>Some e\<close> when \<^verbatim>\<open><-ctx.Done()\<close> is the case the \<^verbatim>\<open>select\<close> of
  attempt \<open>i\<close> takes, \<open>e\<close> being what \<^verbatim>\<open>ctx.Err()\<close> then returns (non-nil once Done is
  closed), and \<open>None\<close> when the timer fires first. Every resolution of timing and of
  the race in the \<^verbatim>\<open>select\<close> is one such pair of functions.
\<close>

record "context" =
  Err_after :: "int \<Rightarrow> error option"
  Done_wins :: "int \<Rightarrow> error option"

definition Background :: "context" where
  "Background = \<lparr>Err_after = (\<lambda>i. None), Done_wins = (\<lambda>i. None)\<rparr>"

text \<open>
  The fields of \<^verbatim>\<open>http.Request\<close> that the package reads. \<open>GetBody\<close> is the optional
  function that makes a fresh copy of the body; a nullary function is modelled by
  the pair it returns. Headers are association lists, iterated in list order, with
  keys in canonical form.
\<close>

type_synonym header = "(string \<times> string list) list"

record raw_request =
  Method :: string
  RequestURI :: string
  Host :: string
  Proto :: string
  ReqHeader :: header
  ReqBody :: "req_body option"
  GetBody :: "(req_body option \<times> error option) option"
  ReqContentLength :: int
  ReqCtx :: "context option"

record raw_response =
  StatusCode :: int
  Status :: string
  RespProto :: string
  Header :: header
  ContentLength :: int
  Body :: body
  SetCookie :: "cookie list"
  Request :: "raw_request option"

subsection \<open>Response (response.go)\<close>

text \<open>
  \<^verbatim>\<open>Response{RawResponse *http.Response; Err error}\<close>. client.go writes the second field
  as \<^verbatim>\<open>resp.err\<close>; it is the same slot, the stored terminal error.
\<close>

record response =
  RawResponse :: "raw_response option"
  Err :: "error option"

definition Resolve :: "response \<Rightarrow> raw_response option \<times> error option" where
  "Resolve r = (RawResponse r, Err r)"

text \<open>
  \<^verbatim>\<open>Raw\<close>: the deferred Close runs after ReadAll. The result is the returned pair and
  the Response as the call leaves it.
\<close>

definition Raw :: "response \<Rightarrow> ((string \<times> error option) \<times> response) go" where
  "Raw r =
     (case Err r of
        Some e \<Rightarrow> Returns (([], Some e), r)
      | None \<Rightarrow>
          (case RawResponse r of
             None \<Rightarrow> Panics
           | Some rr \<Rightarrow>
               (case ReadAll (Body rr) of
                  Panics \<Rightarrow> Panics
                | Returns (bs, e, b1) \<Rightarrow>
                    (case Close b1 of
                       Panics \<Rightarrow> Panics
                     | Returns (ce, b2) \<Rightarrow>
                         Returns ((bs, e), r\<lparr>RawResponse := Some (rr\<lparr>Body := b2\<rparr>)\<rparr>)))))"

definition Text :: "response \<Rightarrow> ((string \<times> error option) \<times> response) go" where
  "Text r = (case Raw r of Panics \<Rightarrow> Panics | Returns ((b, err), r') \<Rightarrow> Returns ((b, err), r'))"

text \<open>
  \<^verbatim>\<open>JSON(v)\<close>: \<open>decode\<close> is \<^verbatim>\<open>encoding/json\<close>'s decoder on the bytes of the body; the
  result carries the value \<^verbatim>\<open>v\<close> points to afterwards (\<open>None\<close>: left as it was).
\<close>

definition JSON :: "(string \<Rightarrow> error + 'v) \<Rightarrow> response \<Rightarrow> ((error option \<times> 'v option) \<times> response) go" where
  "JSON decode r =
     (case Err r of
        Some e \<Rightarrow> Returns ((Some e, None), r)
      | None \<Rightarrow>
          (case RawResponse r of
             None \<Rightarrow> Panics
           | Some rr \<Rightarrow>
               (case ReadAll (Body rr) of
                  Panics \<Rightarrow> Panics
                | Returns (bs, e, b1) \<Rightarrow>
                    (case Close b1 of
                       Panics \<Rightarrow> Panics
                     | Returns (ce, b2) \<Rightarrow>
                         (let r' = r\<lparr>RawResponse := Some (rr\<lparr>Body := b2\<rparr>)\<rparr> in
                          case e of
                            Some re \<Rightarrow> Returns ((Some re, None), r')
                          | None \<Rightarrow>
                              (case decode bs of
                                 Inl de \<Rightarrow> Returns ((Some de, None), r')
                               | Inr v \<Rightarrow> Returns ((None, Some v), r')))))))"

definition Cookies :: "response \<Rightarrow> ((cookie list \<times> error option) \<times> response) go" where
  "Cookies r =
     (case Err r of
        Some e \<Rightarrow> Returns (([], Some e), r)
      | None \<Rightarrow>
          (case RawResponse r of
             None \<Rightarrow> Panics
           | Some rr \<Rightarrow>
               (let cookies = SetCookie rr in
                if length cookies = 0
                then Returns (([], Some (ErrorString ''sreq: cookies not present'')), r)
                else Returns ((cookies, None), r))))"

definition Cookie :: "response \<Rightarrow> string \<Rightarrow> ((cookie option \<times> error option) \<times> response) go" where
  "Cookie r name =
     (case Cookies r of
        Panics \<Rightarrow> Panics
      | Returns ((cookies, err), r') \<Rightarrow>
          (case err of
             Some e \<Rightarrow> Returns ((None, Some e), r')
           | None \<Rightarrow>
               (case find (\<lambda>c. Name c = name) cookies of
                  Some c \<Rightarrow> Returns ((Some c, None), r')
                | None \<Rightarrow> Returns ((None, Some (ErrorString ''sreq: named cookie not present'')), r'))))"

text \<open>
  The status assertions return the receiver \<^verbatim>\<open>r\<close> itself; the model returns the
  Response as the call leaves it.
\<close>

definition EnsureStatus :: "response \<Rightarrow> int \<Rightarrow> response go" where
  "EnsureStatus r code =
     (case Err r of
        Some e \<Rightarrow> Returns r
      | None \<Rightarrow>
          (case RawResponse r of
             None \<Rightarrow> Panics
           | Some rr \<Rightarrow>
               (if StatusCode rr \<noteq> code
                then Returns (r\<lparr>Err := Some (ErrorString (''sreq: bad status: '' @ fmt_d (StatusCode rr)))\<rparr>)
                else Returns r)))"

definition StatusOK :: int where
  "StatusOK = 200"

definition EnsureStatusOk :: "response \<Rightarrow> response go" where
  "EnsureStatusOk r = EnsureStatus r StatusOK"

definition EnsureStatus2xx :: "response \<Rightarrow> response go" where
  "EnsureStatus2xx r =
     (case Err r of
        Some e \<Rightarrow> Returns r
      | None \<Rightarrow>
          (case RawResponse r of
             None \<Rightarrow> Panics
           | Some rr \<Rightarrow>
               (if go_quot (StatusCode rr) 100 \<noteq> 2
                then Returns (r\<lparr>Err := Some (ErrorString (''sreq: bad status: '' @ fmt_d (StatusCode rr)))\<rparr>)
                else Returns r)))"

text \<open>
  Writers and files. A writer either accepts every write or fails every non-empty
  write with \<open>wfault\<close>. \<^verbatim>\<open>fmt.Fprintf\<close> and \<^verbatim>\<open>fmt.Fprint\<close> are called with their
  results dropped. \<^verbatim>\<open>io.Copy\<close> reads the source to its end and hands the bytes to the
  writer.
\<close>

record writer =
  written :: string
  wfault :: "error option"

definition Fprint :: "writer \<Rightarrow> string \<Rightarrow> writer" where
  "Fprint w s = (if wfault w = None then w\<lparr>written := written w @ s\<rparr> else w)"

definition io_Copy_req :: "writer \<Rightarrow> req_body \<Rightarrow> error option \<times> writer" where
  "io_Copy_req w b =
     (if pending b \<noteq> [] \<and> wfault w \<noteq> None then (wfault w, w)
      else (rfault b, w\<lparr>written := written w @ pending b\<rparr>))"

definition io_Copy :: "writer \<Rightarrow> body \<Rightarrow> (error option \<times> writer \<times> body) go" where
  "io_Copy w b =
     (case ReadAll b of
        Panics \<Rightarrow> Panics
      | Returns (bs, re, b') \<Rightarrow>
          (if bs \<noteq> [] \<and> wfault w \<noteq> None then Returns (wfault w, w, b')
           else Returns (re, w\<lparr>written := written w @ bs\<rparr>, b')))"

text \<open>
  The file system \<^verbatim>\<open>Save\<close> writes to: \<open>files\<close> maps a path to its content, \<open>deny\<close>
  is the error \<^verbatim>\<open>os.OpenFile\<close> reports for a path (\<open>None\<close>: it opens), \<open>wfail\<close> the
  error writes to the opened file report. The flags are
  \<^verbatim>\<open>O_WRONLY|O_CREATE|O_TRUNC\<close>: an opened file starts empty.
\<close>

record filesys =
  files :: "string \<rightharpoonup> string"
  deny :: "string \<Rightarrow> error option"
  wfail :: "string \<Rightarrow> error option"

definition OpenFile :: "filesys \<Rightarrow> string \<Rightarrow> nat \<Rightarrow> error + filesys \<times> writer" where
  "OpenFile fs filename perm =
     (case deny fs filename of
        Some e \<Rightarrow> Inl e
      | None \<Rightarrow> Inr (fs\<lparr>files := (files fs)(filename \<mapsto> [])\<rparr>,
                     \<lparr>written = [], wfault = wfail fs filename\<rparr>))"

definition Save :: "response \<Rightarrow> string \<Rightarrow> nat \<Rightarrow> filesys \<Rightarrow> (error option \<times> filesys \<times> response) go" where
  "Save r filename perm fs =
     (case Err r of
        Some e \<Rightarrow> Returns (Some e, fs, r)
      | None \<Rightarrow>
          (case OpenFile fs filename perm of
             Inl e \<Rightarrow> Returns (Some e, fs, r)
           | Inr (fs1, file) \<Rightarrow>
               (case RawResponse r of
                  None \<Rightarrow> Panics
                | Some rr \<Rightarrow>
                    (case io_Copy file (Body rr) of
                       Panics \<Rightarrow> Panics
                     | Returns (err, file', b1) \<Rightarrow>
                         (case Close b1 of
                            Panics \<Rightarrow> Panics
                          | Returns (ce, b2) \<Rightarrow>
                              Returns (err,
                                       fs1\<lparr>files := (files fs1)(filename \<mapsto> written file')\<rparr>,
                                       r\<lparr>RawResponse := Some (rr\<lparr>Body := b2\<rparr>)\<rparr>))))))"

text \<open>\<^verbatim>\<open>Header.Get\<close>: the first value stored under the key, the empty string if none.\<close>

definition header_Get :: "header \<Rightarrow> string \<Rightarrow> string" where
  "header_Get h k = (case map_of h k of Some (v # vs) \<Rightarrow> v | _ \<Rightarrow> [])"

definition crlf :: string where
  "crlf = [CHR 0x0D, CHR 0x0A]"

definition dump_header :: "string \<Rightarrow> header \<Rightarrow> writer \<Rightarrow> writer" where
  "dump_header pre h w =
     fold (\<lambda>(k, vs) w'. Fprint w' (pre @ k @ '': '' @ header_Get h k @ crlf)) h w"

definition Verbose :: "response \<Rightarrow> writer \<Rightarrow> (error option \<times> writer \<times> response) go" where
  "Verbose r w =
     (case Err r of
        Some e \<Rightarrow> Returns (Some e, w, r)
      | None \<Rightarrow>
          (case RawResponse r of
             None \<Rightarrow> Panics
           | Some resp \<Rightarrow>
               (case Request resp of
                  None \<Rightarrow> Panics
                | Some req \<Rightarrow>
                    (let w1 = Fprint w (''> '' @ Method req @ '' '' @ RequestURI req @ '' '' @ Proto req @ crlf);
                         w2 = Fprint w1 (''> Host: '' @ Host req @ crlf);
                         w3 = dump_header ''> '' (ReqHeader req) w2;
                         w4 = Fprint w3 (''>'' @ crlf);
                         sent =
                           (if GetBody req \<noteq> None \<and> ReqContentLength req \<noteq> 0 then
                              (case the (GetBody req) of
                                 (rc, Some err) \<Rightarrow> Returns (Some err, w4)
                               | (None, None) \<Rightarrow> Panics
                               | (Some rc, None) \<Rightarrow>
                                   (case io_Copy_req w4 rc of
                                      (Some err, w5) \<Rightarrow> Returns (Some err, w5)
                                    | (None, w5) \<Rightarrow> Returns (None, Fprint w5 crlf)))
                            else Returns (None, w4))
                     in case sent of
                          Panics \<Rightarrow> Panics
                        | Returns (Some err, w5) \<Rightarrow> Returns (Some err, w5, r)
                        | Returns (None, w5) \<Rightarrow>
                            (let w6 = Fprint w5 (''< '' @ RespProto resp @ '' '' @ Status resp @ crlf);
                                 w7 = dump_header ''< '' (Header resp) w6;
                                 w8 = Fprint w7 (''<'' @ crlf)
                             in case io_Copy w8 (Body resp) of
                                  Panics \<Rightarrow> Panics
                                | Returns (err, w9, b1) \<Rightarrow>
                                    (case Close b1 of
                                       Panics \<Rightarrow> Panics
                                     | Returns (ce, b2) \<Rightarrow>
                                         Returns (err, w9, r\<lparr>RawResponse := Some (resp\<lparr>Body := b2\<rparr>)\<rparr>)))))))"

subsection \<open>Client configuration (client.go)\<close>

datatype url = URL string

record tls_config =
  InsecureSkipVerify :: bool

text \<open>
  \<^verbatim>\<open>*http.Transport\<close>, with the fields the setters below write. A proxy function maps
  a request to a proxy URL or an error.
\<close>

record transport =
  Proxy :: "(raw_request \<Rightarrow> url option \<times> error option) option"
  TLSClientConfig :: "tls_config option"

text \<open>
  The \<^verbatim>\<open>http.RoundTripper\<close> installed in the raw client: an \<^verbatim>\<open>*http.Transport\<close>, some
  other implementation, or nil.
\<close>

datatype round_tripper = HttpTransport transport | OtherTransport nat | NilTransport

record http_client =
  Transport :: round_tripper
  CheckRedirect :: "nat option"
  Jar :: "nat option"
  Timeout :: int

record retry =
  MaxAttempts :: int
  WaitTime :: int
  MaxWaitTime :: int
  Trigger :: "response \<Rightarrow> bool \<times> response"
  Backoff :: "int \<Rightarrow> int \<Rightarrow> int \<Rightarrow> response \<Rightarrow> int \<times> response"

text \<open>
  \<^verbatim>\<open>Request\<close> is declared in request.go, which is not among the sources; these are the
  fields client.go uses. \<open>err\<close> is the channel \<^verbatim>\<open>req.err\<close>, as the queue of values
  waiting in it.
\<close>

record request =
  RawRequest :: raw_request
  Retry :: "retry option"
  ctx :: "context option"
  err :: "error option list"

type_synonym BeforeRequestHook = "request \<Rightarrow> error option \<times> request"
type_synonym AfterResponseHook = "response \<Rightarrow> response"

record client =
  RawClient :: http_client
  beforeRequestHooks :: "BeforeRequestHook list"
  afterResponseHooks :: "AfterResponseHook list"

text \<open>
  What lies outside client.go and response.go. \<open>roundtrip n\<close> is the \<open>n\<close>-th call of
  \<^verbatim>\<open>c.RawClient.Do\<close> (net/http): it returns a response and a nil error, or an error
  with or without a response. \<open>gunzip\<close> is compress/gzip on the bytes of a body,
  \<open>url_Parse\<close> is \<^verbatim>\<open>net/url.Parse\<close>. \<open>Merge\<close> (\<^verbatim>\<open>req.Retry.Merge(defaultRetry)\<close>), \<open>Sync\<close>,
  \<open>SetBody\<close> and \<open>NewRequest\<close> are functions of this package whose files are not among
  the sources; they are parameters.
\<close>

record 'o env =
  roundtrip :: "nat \<Rightarrow> http_client \<Rightarrow> raw_request \<Rightarrow> error \<times> raw_response option + raw_response"
  gunzip :: "string \<Rightarrow> error + string"
  url_Parse :: "string \<Rightarrow> error + url"
  Merge :: "retry option \<Rightarrow> retry"
  Sync :: "request \<Rightarrow> request"
  SetBody :: "request \<Rightarrow> string option \<Rightarrow> request"
  NewRequest :: "string \<Rightarrow> string \<Rightarrow> 'o list \<Rightarrow> error + request"

definition httpTransport :: "client \<Rightarrow> transport option \<times> error option" where
  "httpTransport c =
     (case Transport (RawClient c) of
        HttpTransport t \<Rightarrow> (Some t, None)
      | _ \<Rightarrow> (None, Some ErrUnexpectedTransport))"

definition SetTransport :: "client \<Rightarrow> round_tripper \<Rightarrow> client" where
  "SetTransport c tr = c\<lparr>RawClient := (RawClient c)\<lparr>Transport := tr\<rparr>\<rparr>"

definition SetRedirect :: "client \<Rightarrow> nat option \<Rightarrow> client" where
  "SetRedirect c policy = c\<lparr>RawClient := (RawClient c)\<lparr>CheckRedirect := policy\<rparr>\<rparr>"

definition SetCookieJar :: "client \<Rightarrow> nat option \<Rightarrow> client" where
  "SetCookieJar c jar = c\<lparr>RawClient := (RawClient c)\<lparr>Jar := jar\<rparr>\<rparr>"

definition DisableSession :: "client \<Rightarrow> client" where
  "DisableSession c = SetCookieJar c None"

definition SetTimeout :: "client \<Rightarrow> int \<Rightarrow> client" where
  "SetTimeout c timeout = c\<lparr>RawClient := (RawClient c)\<lparr>Timeout := timeout\<rparr>\<rparr>"

definition SetProxy ::
  "client \<Rightarrow> (raw_request \<Rightarrow> url option \<times> error option) option \<Rightarrow> client \<times> error option" where
  "SetProxy c proxy =
     (case httpTransport c of
        (_, Some e) \<Rightarrow> (c, Some (OpError ''Client.SetProxy'' e))
      | (None, None) \<Rightarrow> (c, None)
      | (Some t, None) \<Rightarrow>
          (c\<lparr>RawClient := (RawClient c)\<lparr>Transport := HttpTransport (t\<lparr>Proxy := proxy\<rparr>)\<rparr>\<rparr>, None))"

definition ProxyURL :: "url \<Rightarrow> raw_request \<Rightarrow> url option \<times> error option" where
  "ProxyURL fixedURL = (\<lambda>r. (Some fixedURL, None))"

definition SetProxyFromURL :: "'o env \<Rightarrow> client \<Rightarrow> string \<Rightarrow> client \<times> error option" where
  "SetProxyFromURL env c u =
     (case url_Parse env u of
        Inl e \<Rightarrow> (c, Some (OpError ''Client.SetProxyFromURL'' e))
      | Inr fixedURL \<Rightarrow> SetProxy c (Some (ProxyURL fixedURL)))"

definition DisableProxy :: "client \<Rightarrow> client \<times> error option" where
  "DisableProxy c = SetProxy c None"

definition SetTLSClientConfig :: "client \<Rightarrow> tls_config option \<Rightarrow> client \<times> error option" where
  "SetTLSClientConfig c config =
     (case httpTransport c of
        (_, Some e) \<Rightarrow> (c, Some (OpError ''Client.SetTLSClientConfig'' e))
      | (None, None) \<Rightarrow> (c, None)
      | (Some t, None) \<Rightarrow>
          (c\<lparr>RawClient := (RawClient c)\<lparr>Transport := HttpTransport (t\<lparr>TLSClientConfig := config\<rparr>)\<rparr>\<rparr>, None))"

definition DisableVerify :: "client \<Rightarrow> client \<times> error option" where
  "DisableVerify c =
     (case httpTransport c of
        (_, Some e) \<Rightarrow> (c, Some (OpError ''Client.DisableVerify'' e))
      | (None, None) \<Rightarrow> (c, None)
      | (Some t, None) \<Rightarrow>
          (let cfg = (case TLSClientConfig t of None \<Rightarrow> \<lparr>InsecureSkipVerify = False\<rparr> | Some g \<Rightarrow> g);
               t' = t\<lparr>TLSClientConfig := Some (cfg\<lparr>InsecureSkipVerify := True\<rparr>)\<rparr>
           in (c\<lparr>RawClient := (RawClient c)\<lparr>Transport := HttpTransport t'\<rparr>\<rparr>, None)))"

definition OnBeforeRequest :: "client \<Rightarrow> BeforeRequestHook list \<Rightarrow> client" where
  "OnBeforeRequest c hooks = c\<lparr>beforeRequestHooks := beforeRequestHooks c @ hooks\<rparr>"

definition OnAfterResponse :: "client \<Rightarrow> AfterResponseHook list \<Rightarrow> client" where
  "OnAfterResponse c hooks = c\<lparr>afterResponseHooks := afterResponseHooks c @ hooks\<rparr>"

subsection \<open>The send pipeline (client.go)\<close>

text \<open>
  The log of what a call did, oldest event first; it is not part of the program.
  \<open>BeforeHook k\<close> and \<open>AfterHook k\<close>: the hook at index \<open>k\<close> of its chain was called.
  \<open>Exchange b\<close>: \<^verbatim>\<open>c.RawClient.Do\<close> was called with a request whose body was \<open>b\<close>.
  \<open>DrainBody\<close>: \<^verbatim>\<open>drainBody\<close> was called. \<open>SetBodyCall r\<close>: \<^verbatim>\<open>req.SetBody\<close> was called with the
  reader \<open>r\<close>. \<open>GetBodyCall\<close>: \<^verbatim>\<open>req.RawRequest.GetBody\<close> was called. \<open>Wait i d\<close>: the
  \<^verbatim>\<open>select\<close> of attempt \<open>i\<close> was entered with a timer of duration \<open>d\<close>.
\<close>

datatype event =
    BeforeHook nat
  | AfterHook nat
  | Exchange "req_body option"
  | DrainBody
  | SetBodyCall "string option"
  | GetBodyCall
  | Wait int int

type_synonym trace = "event list"

fun is_Exchange :: "event \<Rightarrow> bool" where
  "is_Exchange (Exchange b) = True"
| "is_Exchange _ = False"

definition exchanges :: "trace \<Rightarrow> nat" where
  "exchanges tr = length (filter is_Exchange tr)"

fun onBeforeRequest_from ::
  "nat \<Rightarrow> BeforeRequestHook list \<Rightarrow> request \<Rightarrow> trace \<Rightarrow> error option \<times> request \<times> trace" where
  "onBeforeRequest_from k [] req tr = (None, req, tr)"
| "onBeforeRequest_from k (hook # hooks) req tr =
     (case hook req of
        (Some e, req') \<Rightarrow> (Some e, req', tr @ [BeforeHook k])
      | (None, req') \<Rightarrow> onBeforeRequest_from (Suc k) hooks req' (tr @ [BeforeHook k]))"

definition onBeforeRequest :: "client \<Rightarrow> request \<Rightarrow> trace \<Rightarrow> error option \<times> request \<times> trace" where
  "onBeforeRequest c req tr = onBeforeRequest_from 0 (beforeRequestHooks c) req tr"

fun onAfterResponse_from ::
  "nat \<Rightarrow> AfterResponseHook list \<Rightarrow> response \<Rightarrow> trace \<Rightarrow> response \<times> trace" where
  "onAfterResponse_from k [] resp tr = (resp, tr)"
| "onAfterResponse_from k (hook # hooks) resp tr =
     (let resp' = hook resp in
      if Err resp' \<noteq> None then (resp', tr @ [AfterHook k])
      else onAfterResponse_from (Suc k) hooks resp' (tr @ [AfterHook k]))"

definition onAfterResponse :: "client \<Rightarrow> response \<Rightarrow> trace \<Rightarrow> response \<times> trace" where
  "onAfterResponse c resp tr = onAfterResponse_from 0 (afterResponseHooks c) resp tr"

text \<open>
  \<^verbatim>\<open>drainBody\<close>: \<^verbatim>\<open>buf.ReadFrom(body)\<close>, then \<^verbatim>\<open>body.Close()\<close>; either error gives
  \<^verbatim>\<open>(nil, err)\<close>.
\<close>

definition drainBody :: "req_body \<Rightarrow> string option \<times> error option" where
  "drainBody b =
     (case rfault b of
        Some e \<Rightarrow> (None, Some e)
      | None \<Rightarrow>
          (case rcfault b of
             Some e \<Rightarrow> (None, Some e)
           | None \<Rightarrow> (Some (pending b), None)))"

text \<open>
  \<^verbatim>\<open>strings.EqualFold\<close>, on ASCII letters; that is all of it when one side is
  \<^verbatim>\<open>"gzip"\<close>, whose letters fold with no character outside ASCII.
\<close>

definition lower :: "char \<Rightarrow> char" where
  "lower c = (let n = (of_char c :: nat) in if 65 \<le> n \<and> n \<le> 90 then char_of (n + 32) else c)"

definition EqualFold :: "string \<Rightarrow> string \<Rightarrow> bool" where
  "EqualFold s t = (map lower s = map lower t)"

text \<open>
  \<^verbatim>\<open>gzip.NewReader\<close> reads the gzip header from the body: a reader over the decoded
  bytes, or a nil reader and the error.
\<close>

definition gzip_NewReader :: "(string \<Rightarrow> error + string) \<Rightarrow> body \<Rightarrow> body \<times> error option" where
  "gzip_NewReader gz b =
     (case gz (unread b) of
        Inl e \<Rightarrow> (b\<lparr>kind := NilGzip, unread := [], reads := Suc (reads b)\<rparr>, Some e)
      | Inr s \<Rightarrow> (b\<lparr>kind := Gzip, unread := s, reads := Suc (reads b)\<rparr>, None))"

definition is_gzip_Reader :: "body \<Rightarrow> bool" where
  "is_gzip_Reader b = (kind b = Gzip \<or> kind b = NilGzip)"

text \<open>
  \<^verbatim>\<open>Client.do\<close>, one physical exchange. The result is the returned pair, the request
  (its channel may have lost a value) and the log.
\<close>

definition do ::
  "'o env \<Rightarrow> client \<Rightarrow> request \<Rightarrow> trace \<Rightarrow> (raw_response option \<times> error option) \<times> request \<times> trace" where
  "do env c req tr =
     (let tr' = tr @ [Exchange (ReqBody (RawRequest req))] in
      case roundtrip env (exchanges tr) (RawClient c) (RawRequest req) of
        Inl (e, rawResponse) \<Rightarrow> ((rawResponse, Some e), req, tr')
      | Inr rawResponse \<Rightarrow>
          (case err req of
             e # rest \<Rightarrow> ((Some rawResponse, e), req\<lparr>err := rest\<rparr>, tr')
           | [] \<Rightarrow>
               (if EqualFold (header_Get (Header rawResponse) ''Content-Encoding'') ''gzip'' \<and>
                   ContentLength rawResponse \<noteq> 0
                then
                  (if \<not> is_gzip_Reader (Body rawResponse) then
                     (case gzip_NewReader (gunzip env) (Body rawResponse) of
                        (body, e) \<Rightarrow>
                          ((Some (rawResponse\<lparr>Body := body\<lparr>closes := Suc (closes body)\<rparr>\<rparr>), e), req, tr'))
                   else ((Some rawResponse, None), req, tr'))
                else ((Some rawResponse, None), req, tr'))))"

text \<open>
  The reset before a retry: \<^verbatim>\<open>req.RawRequest.Body, _ = req.RawRequest.GetBody()\<close> when
  \<^verbatim>\<open>GetBody\<close> is not nil.
\<close>

definition reset_body :: "request \<Rightarrow> trace \<Rightarrow> request \<times> trace" where
  "reset_body req tr =
     (case GetBody (RawRequest req) of
        None \<Rightarrow> (req, tr)
      | Some (b, ge) \<Rightarrow> (req\<lparr>RawRequest := (RawRequest req)\<lparr>ReqBody := b\<rparr>\<rparr>, tr @ [GetBodyCall]))"

text \<open>
  The \<^verbatim>\<open>for\<close> loop of \<^verbatim>\<open>doWithRetry\<close>, from attempt \<open>i\<close> on. The state is the request,
  the Response and the log.
\<close>

function retry_loop ::
  "'o env \<Rightarrow> client \<Rightarrow> retry \<Rightarrow> context \<Rightarrow> int \<Rightarrow> request \<times> response \<times> trace
     \<Rightarrow> request \<times> response \<times> trace" where
  "retry_loop env c retry cx i (req, resp, tr) =
     (if i < MaxAttempts retry then
        (case do env c req tr of
           ((rawResponse, e), req1, tr1) \<Rightarrow>
             (let resp1 = resp\<lparr>RawResponse := rawResponse, Err := e\<rparr> in
              case Err_after cx i of
                Some ce \<Rightarrow> (req1, resp1\<lparr>Err := Some ce\<rparr>, tr1)
              | None \<Rightarrow>
                  (if i = MaxAttempts retry - 1 then (req1, resp1, tr1)
                   else
                     (case Trigger retry resp1 of
                        (shouldRetry, resp2) \<Rightarrow>
                          (if \<not> shouldRetry then (req1, resp2, tr1)
                           else
                             (case reset_body req1 tr1 of
                                (req2, tr2) \<Rightarrow>
                                  (case Backoff retry (WaitTime retry) (MaxWaitTime retry) i resp2 of
                                     (d, resp3) \<Rightarrow>
                                       (case Done_wins cx i of
                                          Some ce \<Rightarrow> (req2, resp3\<lparr>Err := Some ce\<rparr>, tr2 @ [Wait i d])
                                        | None \<Rightarrow>
                                            retry_loop env c retry cx (i + 1)
                                              (req2, resp3, tr2 @ [Wait i d])))))))))
      else (req, resp, tr))"
  by pat_completeness auto
termination
  by (relation "measure (\<lambda>(env, c, retry, cx, i, st). nat (MaxAttempts retry - i))") auto

text \<open>
  \<^verbatim>\<open>doWithRetry\<close> in its three parts: the conversion of a single-use body
  (\<open>finalize_body\<close>, the first \<^verbatim>\<open>if\<close>), the choice of the context (\<open>bound_context\<close>), and
  the loop.
\<close>

definition needs_buffering :: "retry \<Rightarrow> request \<Rightarrow> bool" where
  "needs_buffering retry req =
     (MaxAttempts retry > 1 \<and> ReqBody (RawRequest req) \<noteq> None \<and> GetBody (RawRequest req) = None)"

definition finalize_body :: "'o env \<Rightarrow> retry \<Rightarrow> request \<Rightarrow> trace \<Rightarrow> request \<times> trace" where
  "finalize_body env retry req tr =
     (if needs_buffering retry req
      then
        (case drainBody (the (ReqBody (RawRequest req))) of
           (body, de) \<Rightarrow> (SetBody env req body, tr @ [DrainBody, SetBodyCall body]))
      else (req, tr))"

definition bound_context :: "request \<Rightarrow> context" where
  "bound_context req = (case ctx req of None \<Rightarrow> Background | Some cx \<Rightarrow> cx)"

definition doWithRetry ::
  "'o env \<Rightarrow> client \<Rightarrow> request \<Rightarrow> response \<Rightarrow> trace \<Rightarrow> request \<times> response \<times> trace" where
  "doWithRetry env c req resp tr =
     (let retry = Merge env (Retry req);
          (req1, tr1) = finalize_body env retry req tr;
          cx = bound_context req1;
          req2 = req1\<lparr>RawRequest := (RawRequest req1)\<lparr>ReqCtx := Some cx\<rparr>\<rparr>
      in retry_loop env c retry cx 0 (req2, resp, tr1))"

definition Do :: "'o env \<Rightarrow> client \<Rightarrow> request \<Rightarrow> trace \<Rightarrow> response \<times> request \<times> trace" where
  "Do env c req tr =
     (let resp = \<lparr>RawResponse = None, Err = None\<rparr> in
      case onBeforeRequest c req tr of
        (Some e, req1, tr1) \<Rightarrow> (resp\<lparr>Err := Some e\<rparr>, req1, tr1)
      | (None, req1, tr1) \<Rightarrow>
          (case doWithRetry env c (Sync env req1) resp tr1 of
             (req2, resp1, tr2) \<Rightarrow>
               (case onAfterResponse c resp1 tr2 of
                  (resp2, tr3) \<Rightarrow> (resp2, req2, tr3))))"

text \<open>
  \<^verbatim>\<open>Client.Send\<close>. When construction fails there is no request to return.
\<close>

definition Send ::
  "'o env \<Rightarrow> client \<Rightarrow> string \<Rightarrow> string \<Rightarrow> 'o list \<Rightarrow> trace \<Rightarrow> response \<times> request option \<times> trace" where
  "Send env c method u opts tr =
     (case NewRequest env method u opts of
        Inl e \<Rightarrow> (\<lparr>RawResponse = None, Err = Some e\<rparr>, None, tr)
      | Inr req \<Rightarrow>
          (case Do env c req tr of
             (resp, req', tr') \<Rightarrow> (resp, Some req', tr')))"

subsection \<open>Vocabulary of the properties\<close>

text \<open>
  The request after the hooks \<open>hs\<close> have all run on it, and the Response after the
  hooks \<open>gs\<close> have all run on it.
\<close>

definition run_before :: "BeforeRequestHook list \<Rightarrow> request \<Rightarrow> request" where
  "run_before hs req = fold (\<lambda>h r. snd (h r)) hs req"






subsection \<open>Sample values\<close>

text \<open>
  Concrete requests, responses, policies and surroundings, on which the properties
  below are exercised.
\<close>

definition plain_body :: "string \<Rightarrow> body" where
  "plain_body s = \<lparr>kind = Plain, unread = s, fault = None, cfault = None, reads = 0, closes = 0\<rparr>"

definition sample_raw_request :: raw_request where
  "sample_raw_request =
     \<lparr>Method = ''GET'', RequestURI = ''/'', Host = ''example.com'', Proto = ''HTTP/1.1'',
      ReqHeader = [], ReqBody = None, GetBody = None, ReqContentLength = 0, ReqCtx = None\<rparr>"

definition sample_raw_response :: "int \<Rightarrow> header \<Rightarrow> string \<Rightarrow> raw_response" where
  "sample_raw_response code h s =
     \<lparr>StatusCode = code, Status = fmt_d code, RespProto = ''HTTP/1.1'', Header = h,
      ContentLength = int (length s), Body = plain_body s, SetCookie = [],
      Request = Some sample_raw_request\<rparr>"

definition sample_retry :: "int \<Rightarrow> retry" where
  "sample_retry n =
     \<lparr>MaxAttempts = n, WaitTime = 10, MaxWaitTime = 100,
      Trigger = (\<lambda>r. (True, r)), Backoff = (\<lambda>w m i r. (w, r))\<rparr>"

definition stream :: "string \<Rightarrow> req_body" where
  "stream s = \<lparr>pending = s, rfault = None, rcfault = None\<rparr>"

definition sample_SetBody :: "request \<Rightarrow> string option \<Rightarrow> request" where
  "sample_SetBody req b =
     req\<lparr>RawRequest := (RawRequest req)
           \<lparr>ReqBody := map_option stream b,
            GetBody := map_option (\<lambda>s. (Some (stream s), None)) b\<rparr>\<rparr>"

definition sample_request :: "int \<Rightarrow> req_body option \<Rightarrow> request" where
  "sample_request n b =
     \<lparr>RawRequest = sample_raw_request\<lparr>ReqBody := b\<rparr>, Retry = Some (sample_retry n),
      ctx = None, err = []\<rparr>"

definition sample_env :: "raw_response \<Rightarrow> unit env" where
  "sample_env rr =
     \<lparr>roundtrip = (\<lambda>n cl rq. Inr rr),
      gunzip = (\<lambda>s. if s = [] then Inl (Foreign 7) else Inr s),
      url_Parse = (\<lambda>s. if s = '':'' then Inl (Foreign 3) else Inr (URL s)),
      Merge = (\<lambda>r. case r of None \<Rightarrow> sample_retry 1 | Some p \<Rightarrow> p),
      Sync = (\<lambda>req. req),
      SetBody = sample_SetBody,
      NewRequest = (\<lambda>m u opts. if u = [] then Inl (Foreign 5) else Inr (sample_request 1 None))\<rparr>"

definition sample_client :: client where
  "sample_client =
     \<lparr>RawClient = \<lparr>Transport = HttpTransport \<lparr>Proxy = None, TLSClientConfig = None\<rparr>,
                   CheckRedirect = None, Jar = None, Timeout = 120\<rparr>,
      beforeRequestHooks = [], afterResponseHooks = []\<rparr>"

definition failed_response :: response where
  "failed_response = \<lparr>RawResponse = Some (sample_raw_response 200 [] ''ok''), Err = Some (Foreign 1)\<rparr>"

definition not_found_response :: response where
  "not_found_response = \<lparr>RawResponse = Some (sample_raw_response 404 [] ''nope''), Err = None\<rparr>"


text \<open>
  A client with three hooks in each chain, the second of which fails, and with a
  proxy configured.
\<close>

definition hooked_client :: client where
  "hooked_client =
     \<lparr>RawClient = \<lparr>Transport = HttpTransport \<lparr>Proxy = Some (ProxyURL (URL ''http://proxy:8080'')),
                                                TLSClientConfig = None\<rparr>,
                   CheckRedirect = None, Jar = None, Timeout = 120\<rparr>,
      beforeRequestHooks =
        [(\<lambda>r. (None, r)), (\<lambda>r. (Some (Foreign 2), r)), (\<lambda>r. (None, r))],
      afterResponseHooks =
        [(\<lambda>r. r), (\<lambda>r. r\<lparr>Err := Some (Foreign 4)\<rparr>), (\<lambda>r. r\<lparr>Err := None\<rparr>)]\<rparr>"


definition server_error :: raw_response where
  "server_error = sample_raw_response 500 [] ''fail''"

definition fresh_response :: response where
  "fresh_response = \<lparr>RawResponse = None, Err = None\<rparr>"


text \<open>An environment whose transport fails, and two contexts that get canceled.\<close>

definition failing_env :: "unit env" where
  "failing_env = (sample_env server_error)\<lparr>roundtrip := (\<lambda>n cl rq. Inl (Foreign 9, None))\<rparr>"

definition canceled_ctx :: "context" where
  "canceled_ctx = \<lparr>Err_after = (\<lambda>i. Some Canceled), Done_wins = (\<lambda>i. None)\<rparr>"

definition expiring_ctx :: "context" where
  "expiring_ctx = \<lparr>Err_after = (\<lambda>i. None), Done_wins = (\<lambda>i. Some DeadlineExceeded)\<rparr>"




definition empty_fs :: filesys where
  "empty_fs = \<lparr>files = Map.empty, deny = (\<lambda>p. None), wfail = (\<lambda>p. None)\<rparr>"

definition empty_writer :: writer where
  "empty_writer = \<lparr>written = [], wfault = None\<rparr>"

section \<open>Properties of the Response accessors\<close>

lemma go_quot_2xx: "go_quot sc 100 = 2 \<longleftrightarrow> 200 \<le> sc \<and> sc \<le> 299"
  unfolding go_quot_def by (cases "sc < 0"; cases "sc = 0") (auto simp: sgn_if; presburger)+

text \<open>
  C5. On a Response whose stored error is \<open>e\<close>, every accessor returns at once: Raw,
  Text, JSON, Cookies, Cookie, Save and Verbose return \<open>e\<close> itself as their error;
  EnsureStatus, EnsureStatus2xx and EnsureStatusOk, whose result is the wrapper,
  return it with \<open>e\<close> still stored. In every case the Response after the call equals
  the Response before it, body included (no read, no close), and Save and Verbose
  leave the file system and the writer as they were.
\<close>

theorem accessors_return_stored_error:
  assumes "Err r = Some e"
  shows "Raw r = Returns (([], Some e), r) \<and>
         Text r = Returns (([], Some e), r) \<and>
         JSON decode r = Returns ((Some e, None), r) \<and>
         Cookies r = Returns (([], Some e), r) \<and>
         Cookie r name = Returns ((None, Some e), r) \<and>
         EnsureStatus r code = Returns r \<and>
         EnsureStatus2xx r = Returns r \<and>
         EnsureStatusOk r = Returns r \<and>
         Save r filename perm fs = Returns (Some e, fs, r) \<and>
         Verbose r w = Returns (Some e, w, r)"
  using assms
  by (simp add: Raw_def Text_def JSON_def Cookies_def Cookie_def EnsureStatus_def
      EnsureStatus2xx_def EnsureStatusOk_def Save_def Verbose_def)

theorem accessors_return_stored_error_witness:
  "Err failed_response = Some (Foreign 1) \<and>
   Raw failed_response = Returns (([], Some (Foreign 1)), failed_response) \<and>
   Text failed_response = Returns (([], Some (Foreign 1)), failed_response) \<and>
   JSON (\<lambda>s. Inr (length s)) failed_response = Returns ((Some (Foreign 1), None), failed_response) \<and>
   Cookies failed_response = Returns (([], Some (Foreign 1)), failed_response) \<and>
   Cookie failed_response ''sid'' = Returns ((None, Some (Foreign 1)), failed_response) \<and>
   EnsureStatus failed_response 404 = Returns failed_response \<and>
   EnsureStatus2xx failed_response = Returns failed_response \<and>
   EnsureStatusOk failed_response = Returns failed_response \<and>
   Save failed_response ''out.bin'' 420 empty_fs = Returns (Some (Foreign 1), empty_fs, failed_response) \<and>
   Verbose failed_response empty_writer = Returns (Some (Foreign 1), empty_writer, failed_response)"
proof -
  have h: "Err failed_response = Some (Foreign 1)"
    by (simp add: failed_response_def)
  show ?thesis
    using h accessors_return_stored_error [OF h, of "\<lambda>s. Inr (length s)" "''sid''" 404 "''out.bin''" 420 empty_fs empty_writer]
    by simp
qed

text \<open>
  C6. On an error-free Response whose status code is not \<open>code\<close>, \<open>EnsureStatus code\<close>
  returns the same Response with nothing changed but the stored error, which is now
  the message \<^verbatim>\<open>sreq: bad status: \<close> followed by the actual status code in decimal; the
  raw response, and with it the body and its read and close counts, is as before. A
  Raw call on the result returns that error and no bytes, and leaves the body alone.
  \<open>EnsureStatusOk\<close> is \<open>EnsureStatus 200\<close>. On an error-free Response \<open>EnsureStatus2xx\<close>
  stores that error exactly when the status code is outside 200..299, and otherwise
  changes nothing.
\<close>

theorem EnsureStatus_mismatch:
  "(Err r = None \<and> RawResponse r = Some rr \<and> StatusCode rr \<noteq> code \<longrightarrow>
      EnsureStatus r code =
        Returns (r\<lparr>Err := Some (ErrorString (''sreq: bad status: '' @ fmt_d (StatusCode rr)))\<rparr>) \<and>
      RawResponse (r\<lparr>Err := Some (ErrorString (''sreq: bad status: '' @ fmt_d (StatusCode rr)))\<rparr>) =
        RawResponse r \<and>
      Raw (r\<lparr>Err := Some (ErrorString (''sreq: bad status: '' @ fmt_d (StatusCode rr)))\<rparr>) =
        Returns (([], Some (ErrorString (''sreq: bad status: '' @ fmt_d (StatusCode rr)))),
                 r\<lparr>Err := Some (ErrorString (''sreq: bad status: '' @ fmt_d (StatusCode rr)))\<rparr>)) \<and>
   EnsureStatusOk r = EnsureStatus r 200 \<and>
   (Err r = None \<and> RawResponse r = Some rr \<longrightarrow>
      EnsureStatus2xx r =
        Returns (if 200 \<le> StatusCode rr \<and> StatusCode rr \<le> 299 then r
                 else r\<lparr>Err := Some (ErrorString (''sreq: bad status: '' @ fmt_d (StatusCode rr)))\<rparr>))"
  by (simp add: EnsureStatus_def EnsureStatusOk_def StatusOK_def EnsureStatus2xx_def Raw_def
      go_quot_2xx)

theorem EnsureStatus_mismatch_witness:
  "Err not_found_response = None \<and>
   RawResponse not_found_response = Some (sample_raw_response 404 [] ''nope'') \<and>
   StatusCode (sample_raw_response 404 [] ''nope'') \<noteq> 200 \<and>
   EnsureStatus not_found_response 200 =
     Returns (not_found_response\<lparr>Err := Some (ErrorString ''sreq: bad status: 404'')\<rparr>) \<and>
   Raw (not_found_response\<lparr>Err := Some (ErrorString ''sreq: bad status: 404'')\<rparr>) =
     Returns (([], Some (ErrorString ''sreq: bad status: 404'')),
              not_found_response\<lparr>Err := Some (ErrorString ''sreq: bad status: 404'')\<rparr>) \<and>
   EnsureStatusOk not_found_response = EnsureStatus not_found_response 200 \<and>
   EnsureStatus2xx not_found_response =
     Returns (not_found_response\<lparr>Err := Some (ErrorString ''sreq: bad status: 404'')\<rparr>)"
proof -
  have h: "Err not_found_response = None \<and>
           RawResponse not_found_response = Some (sample_raw_response 404 [] ''nope'') \<and>
           StatusCode (sample_raw_response 404 [] ''nope'') \<noteq> 200"
    by (simp add: not_found_response_def sample_raw_response_def)
  have f: "fmt_d (StatusCode (sample_raw_response 404 [] ''nope'')) = ''404''"
    by (simp add: sample_raw_response_def fmt_d_def digit_def)
  have g: "\<not> (200 \<le> StatusCode (sample_raw_response 404 [] ''nope'') \<and>
                StatusCode (sample_raw_response 404 [] ''nope'') \<le> 299)"
    by (simp add: sample_raw_response_def)
  show ?thesis
    using h f g EnsureStatus_mismatch [of not_found_response "sample_raw_response 404 [] ''nope''" 200]
    by simp
qed

section \<open>Properties of the hook chains\<close>


lemma run_before_Cons: "run_before (h # hs) req = run_before hs (snd (h req))"
  by (simp add: run_before_def)



lemma before_from_fail:
  "k < length hs \<Longrightarrow>
   (\<forall>j<k. fst ((hs ! j) (run_before (take j hs) req)) = None) \<Longrightarrow>
   fst ((hs ! k) (run_before (take k hs) req)) = Some e \<Longrightarrow>
   onBeforeRequest_from k0 hs req tr =
     (Some e, run_before (take (Suc k) hs) req, tr @ map BeforeHook [k0..<k0 + Suc k])"
proof (induction hs arbitrary: k k0 req tr)
  case Nil
  then show ?case by simp
next
  case (Cons h hs)
  show ?case
  proof (cases k)
    case 0
    then show ?thesis using Cons.prems
      by (cases "h req") (simp add: run_before_def)
  next
    case (Suc k')
    have h0: "fst (h req) = None" using Cons.prems(2) Suc
      by (auto simp: run_before_def dest: spec[where x=0])
    have pre: "\<forall>j<k'. fst ((hs ! j) (run_before (take j hs) (snd (h req)))) = None"
    proof (intro allI impI)
      fix j assume "j < k'"
      then have "Suc j < k" using Suc by simp
      from Cons.prems(2)[rule_format, OF this] show "fst ((hs ! j) (run_before (take j hs) (snd (h req)))) = None"
        by (simp add: run_before_Cons)
    qed
    have at: "fst ((hs ! k') (run_before (take k' hs) (snd (h req)))) = Some e"
      using Cons.prems(3) Suc by (simp add: run_before_Cons)
    have len: "k' < length hs" using Cons.prems(1) Suc by simp
    have ih: "onBeforeRequest_from (Suc k0) hs (snd (h req)) (tr @ [BeforeHook k0]) =
       (Some e, run_before (take (Suc k') hs) (snd (h req)),
        (tr @ [BeforeHook k0]) @ map BeforeHook [Suc k0..<Suc k0 + Suc k'])"
      by (rule Cons.IH[OF len pre at])
    have u: "[k0..<k0 + Suc k] = k0 # [Suc k0..<Suc k0 + Suc k']"
      using Suc by (simp add: upt_conv_Cons)
    show ?thesis
      using h0 ih Suc u by (cases "h req") (simp add: run_before_Cons)
  qed
qed




text \<open>
  C3. Let the before-request chain of the client be \<open>h\<^sub>0, ..., h\<^sub>n\<close>, let the hooks before
  index \<open>k\<close> return no error (each on the request its predecessors left) and let
  \<open>h\<^sub>k\<close> return the error \<open>e\<close>. Then \<open>Do\<close> returns a Response with no raw response and
  the error \<open>e\<close>; the log shows the calls of \<open>h\<^sub>0, ..., h\<^sub>k\<close> in that order and nothing
  else: no later before-request hook, no exchange, no after-response hook.
\<close>

theorem Do_before_hook_failure:
  assumes "k < length (beforeRequestHooks c)"
    and "\<forall>j<k. fst ((beforeRequestHooks c ! j) (run_before (take j (beforeRequestHooks c)) req)) = None"
    and "fst ((beforeRequestHooks c ! k) (run_before (take k (beforeRequestHooks c)) req)) = Some e"
  shows "Do env c req tr =
           (\<lparr>RawResponse = None, Err = Some e\<rparr>,
            run_before (take (Suc k) (beforeRequestHooks c)) req,
            tr @ map BeforeHook [0..<Suc k]) \<and>
         exchanges (tr @ map BeforeHook [0..<Suc k]) = exchanges tr"
proof -
  have "onBeforeRequest c req tr =
          (Some e, run_before (take (Suc k) (beforeRequestHooks c)) req, tr @ map BeforeHook [0..<0 + Suc k])"
    unfolding onBeforeRequest_def by (rule before_from_fail[OF assms])
  then have "Do env c req tr =
           (\<lparr>RawResponse = None, Err = Some e\<rparr>,
            run_before (take (Suc k) (beforeRequestHooks c)) req,
            tr @ map BeforeHook [0..<Suc k])"
    by (simp add: Do_def)
  moreover have "filter is_Exchange (map BeforeHook [0..<Suc k]) = []"
    by (induction k) simp_all
  then have "exchanges (tr @ map BeforeHook [0..<Suc k]) = exchanges tr"
    by (simp add: exchanges_def)
  ultimately show ?thesis by simp
qed

theorem Do_before_hook_failure_witness:
  "(1::nat) < length (beforeRequestHooks hooked_client) \<and>
   fst ((beforeRequestHooks hooked_client ! 0)
          (run_before (take 0 (beforeRequestHooks hooked_client)) (sample_request 1 None))) = None \<and>
   fst ((beforeRequestHooks hooked_client ! 1)
          (run_before (take 1 (beforeRequestHooks hooked_client)) (sample_request 1 None))) = Some (Foreign 2) \<and>
   Do (sample_env (sample_raw_response 200 [] ''ok'')) hooked_client (sample_request 1 None) [] =
     (\<lparr>RawResponse = None, Err = Some (Foreign 2)\<rparr>, sample_request 1 None, [BeforeHook 0, BeforeHook 1])"
proof -
  have h1: "(1::nat) < length (beforeRequestHooks hooked_client)"
    by (simp add: hooked_client_def)
  have h2: "\<forall>j<1. fst ((beforeRequestHooks hooked_client ! j)
               (run_before (take j (beforeRequestHooks hooked_client)) (sample_request 1 None))) = None"
    by (simp add: hooked_client_def run_before_def)
  have h3: "fst ((beforeRequestHooks hooked_client ! 1)
          (run_before (take 1 (beforeRequestHooks hooked_client)) (sample_request 1 None))) = Some (Foreign 2)"
    by (simp add: hooked_client_def run_before_def)
  have r: "run_before (take (Suc 1) (beforeRequestHooks hooked_client)) (sample_request 1 None) =
           sample_request 1 None"
    by (simp add: hooked_client_def run_before_def)
  have u: "map BeforeHook [0..<Suc 1] = [BeforeHook 0, BeforeHook 1]"
    by (simp add: upt_conv_Cons)
  have h0: "fst ((beforeRequestHooks hooked_client ! 0)
          (run_before (take 0 (beforeRequestHooks hooked_client)) (sample_request 1 None))) = None"
    by (simp add: hooked_client_def run_before_def)
  show ?thesis
    using h0 h1 h3 r u
      Do_before_hook_failure [OF h1 h2 h3, of "sample_env (sample_raw_response 200 [] ''ok'')" "[]"]
    by simp
qed



section \<open>Properties of the configuration and of Send\<close>

text \<open>
  C9. When \<^verbatim>\<open>net/url.Parse\<close> rejects the string with error \<open>e\<close>, \<open>SetProxyFromURL\<close> returns
  the client exactly as it was (transport, proxy function and all) together with
  the error \<^verbatim>\<open>&Error{Op: "Client.SetProxyFromURL", Err: e}\<close>.
\<close>

theorem SetProxyFromURL_malformed:
  assumes "url_Parse env u = Inl e"
  shows "SetProxyFromURL env c u = (c, Some (OpError ''Client.SetProxyFromURL'' e))"
  using assms by (simp add: SetProxyFromURL_def)

theorem SetProxyFromURL_malformed_witness:
  "url_Parse (sample_env (sample_raw_response 200 [] ''ok'')) '':'' = Inl (Foreign 3) \<and>
   SetProxyFromURL (sample_env (sample_raw_response 200 [] ''ok'')) hooked_client '':'' =
     (hooked_client, Some (OpError ''Client.SetProxyFromURL'' (Foreign 3)))"
proof -
  have h: "url_Parse (sample_env (sample_raw_response 200 [] ''ok'')) '':'' = Inl (Foreign 3)"
    by (simp add: sample_env_def)
  show ?thesis using h SetProxyFromURL_malformed [OF h, of hooked_client] by simp
qed

text \<open>
  C10. When \<open>NewRequest\<close> fails with \<open>e\<close>, \<open>Send\<close> returns a Response with no raw
  response and the error \<open>e\<close>, and the log is as it was: no before-request hook, no
  exchange and no after-response hook has run.
\<close>

theorem Send_construction_failure:
  assumes "NewRequest env method u opts = Inl e"
  shows "Send env c method u opts tr = (\<lparr>RawResponse = None, Err = Some e\<rparr>, None, tr)"
  using assms by (simp add: Send_def)

theorem Send_construction_failure_witness:
  "NewRequest (sample_env (sample_raw_response 200 [] ''ok'')) ''GET'' [] [] = Inl (Foreign 5) \<and>
   Send (sample_env (sample_raw_response 200 [] ''ok'')) hooked_client ''GET'' [] [] [] =
     (\<lparr>RawResponse = None, Err = Some (Foreign 5)\<rparr>, None, [])"
proof -
  have h: "NewRequest (sample_env (sample_raw_response 200 [] ''ok'')) ''GET'' [] [] = Inl (Foreign 5)"
    by (simp add: sample_env_def)
  show ?thesis using h Send_construction_failure [OF h, of hooked_client "[]"] by simp
qed

section \<open>Properties of the retry loop\<close>

lemma do_trace: "do env c req tr = ((rr, e), req1, tr1) \<Longrightarrow> tr1 = tr @ [Exchange (ReqBody (RawRequest req))]"
  by (auto simp: do_def Let_def split: sum.splits list.splits prod.splits if_splits)


lemma exchanges_append: "exchanges (tr @ tr') = exchanges tr + exchanges tr'"
  by (simp add: exchanges_def)

lemma exchanges_single:
  "exchanges [Exchange b] = 1" "exchanges [GetBodyCall] = 0" "exchanges [Wait i d] = 0"
  by (simp_all add: exchanges_def)

lemma reset_body_exchanges: "reset_body req tr = (req2, tr2) \<Longrightarrow> exchanges tr2 = exchanges tr"
  by (auto simp: reset_body_def exchanges_append exchanges_single split: option.splits)

lemma loop_exit: "\<not> i < MaxAttempts retry \<Longrightarrow> retry_loop env c retry cx i (req, resp, tr) = (req, resp, tr)"
  by simp

lemma loop_cancel_after:
  "i < MaxAttempts retry \<Longrightarrow> do env c req tr = ((rr, e), req1, tr1) \<Longrightarrow> Err_after cx i = Some ce \<Longrightarrow>
   retry_loop env c retry cx i (req, resp, tr) = (req1, resp\<lparr>RawResponse := rr, Err := Some ce\<rparr>, tr1)"
  by (subst retry_loop.simps) simp

lemma loop_last:
  "i = MaxAttempts retry - 1 \<Longrightarrow> do env c req tr = ((rr, e), req1, tr1) \<Longrightarrow> Err_after cx i = None \<Longrightarrow>
   retry_loop env c retry cx i (req, resp, tr) = (req1, resp\<lparr>RawResponse := rr, Err := e\<rparr>, tr1)"
  by (subst retry_loop.simps) simp


lemma loop_cancel_wait:
  "i < MaxAttempts retry - 1 \<Longrightarrow> do env c req tr = ((rr, e), req1, tr1) \<Longrightarrow> Err_after cx i = None \<Longrightarrow>
   Trigger retry (resp\<lparr>RawResponse := rr, Err := e\<rparr>) = (True, resp2) \<Longrightarrow>
   reset_body req1 tr1 = (req2, tr2) \<Longrightarrow>
   Backoff retry (WaitTime retry) (MaxWaitTime retry) i resp2 = (d, resp3) \<Longrightarrow>
   Done_wins cx i = Some ce \<Longrightarrow>
   retry_loop env c retry cx i (req, resp, tr) = (req2, resp3\<lparr>Err := Some ce\<rparr>, tr2 @ [Wait i d])"
  by (subst retry_loop.simps) simp

lemma loop_continue:
  "i < MaxAttempts retry - 1 \<Longrightarrow> do env c req tr = ((rr, e), req1, tr1) \<Longrightarrow> Err_after cx i = None \<Longrightarrow>
   Trigger retry (resp\<lparr>RawResponse := rr, Err := e\<rparr>) = (True, resp2) \<Longrightarrow>
   reset_body req1 tr1 = (req2, tr2) \<Longrightarrow>
   Backoff retry (WaitTime retry) (MaxWaitTime retry) i resp2 = (d, resp3) \<Longrightarrow>
   Done_wins cx i = None \<Longrightarrow>
   retry_loop env c retry cx i (req, resp, tr) = retry_loop env c retry cx (i + 1) (req2, resp3, tr2 @ [Wait i d])"
  by (subst retry_loop.simps) simp

lemma retry_loop_exact:
  assumes trig: "\<forall>r. fst (Trigger retry r)"
    and nc: "\<forall>j. Err_after cx j = None \<and> Done_wins cx j = None"
  shows "nat (MaxAttempts retry - i) = Suc n \<Longrightarrow>
    (case retry_loop env c retry cx i (req, resp, tr) of
       (req', resp', tr') \<Rightarrow>
         exchanges tr' = exchanges tr + Suc n \<and>
         (\<exists>reqN trN. exchanges trN = exchanges tr + n \<and>
            do env c reqN trN = ((RawResponse resp', Err resp'), req', tr')))"
proof (induction n arbitrary: i req resp tr)
  case 0
  obtain rr e req1 tr1 where d: "do env c req tr = ((rr, e), req1, tr1)"
    by (metis prod.exhaust)
  have i: "i = MaxAttempts retry - 1" using 0 by linarith
  have "retry_loop env c retry cx i (req, resp, tr) = (req1, resp\<lparr>RawResponse := rr, Err := e\<rparr>, tr1)"
    using loop_last[OF i d] nc by simp
  moreover have "exchanges tr1 = exchanges tr + 1"
    using do_trace[OF d] by (simp add: exchanges_append exchanges_single)
  ultimately show ?case using d by auto
next
  case (Suc n)
  obtain rr e req1 tr1 where d: "do env c req tr = ((rr, e), req1, tr1)"
    by (metis prod.exhaust)
  have i: "i < MaxAttempts retry - 1" using Suc.prems by linarith
  obtain resp2 where t: "Trigger retry (resp\<lparr>RawResponse := rr, Err := e\<rparr>) = (True, resp2)"
    using trig by (metis prod.collapse)
  obtain req2 tr2 where r: "reset_body req1 tr1 = (req2, tr2)" by (metis prod.exhaust)
  obtain d' resp3 where b: "Backoff retry (WaitTime retry) (MaxWaitTime retry) i resp2 = (d', resp3)"
    by (metis prod.exhaust)
  have step: "retry_loop env c retry cx i (req, resp, tr) =
              retry_loop env c retry cx (i + 1) (req2, resp3, tr2 @ [Wait i d'])"
    using loop_continue[OF i d _ t r b] nc by simp
  have ex: "exchanges (tr2 @ [Wait i d']) = exchanges tr + 1"
    using do_trace[OF d] reset_body_exchanges[OF r] by (simp add: exchanges_append exchanges_single)
  have m: "nat (MaxAttempts retry - (i + 1)) = Suc n" using Suc.prems by linarith
  show ?case
    using Suc.IH[OF m, where req=req2 and resp=resp3 and tr="tr2 @ [Wait i d']"] step ex
    by (auto split: prod.splits)
qed


lemma response_update_all: "resp\<lparr>RawResponse := rr, Err := e\<rparr> = \<lparr>RawResponse = rr, Err = e\<rparr>"
  by (cases resp) simp


lemma finalize_body_exchanges: "exchanges (snd (finalize_body env retry req tr)) = exchanges tr"
  by (simp add: finalize_body_def exchanges_def split: prod.splits)

text \<open>
  C1. Let the merged policy have \<open>MaxAttempts = N\<close> with \<open>N \<ge> 1\<close> and a Trigger that
  answers true on every Response, and let the context bound to the call never be
  observed canceled (neither after an exchange nor in a wait). Then \<open>doWithRetry\<close>
  performs exactly \<open>N\<close> exchanges, and the Response it leaves holds the raw response
  and the error that the \<open>N\<close>-th call of \<open>do\<close> returned.
\<close>

theorem doWithRetry_exactly_N_exchanges:
  assumes "MaxAttempts (Merge env (Retry req)) = N" and "1 \<le> N"
    and "\<forall>r. fst (Trigger (Merge env (Retry req)) r)"
    and "\<forall>j. Err_after (bound_context (fst (finalize_body env (Merge env (Retry req)) req tr))) j = None \<and>
             Done_wins (bound_context (fst (finalize_body env (Merge env (Retry req)) req tr))) j = None"
  shows "case doWithRetry env c req resp tr of
           (req', resp', tr') \<Rightarrow>
             int (exchanges tr') = int (exchanges tr) + N \<and>
             (\<exists>reqN trN. int (exchanges trN) = int (exchanges tr) + N - 1 \<and>
                do env c reqN trN = ((RawResponse resp', Err resp'), req', tr'))"
proof -
  define retry where "retry = Merge env (Retry req)"
  obtain req1 tr1 where f: "finalize_body env retry req tr = (req1, tr1)" by (metis prod.exhaust)
  define cx where "cx = bound_context req1"
  define req2 where "req2 = req1\<lparr>RawRequest := (RawRequest req1)\<lparr>ReqCtx := Some cx\<rparr>\<rparr>"
  define n where "n = nat (N - 1)"
  have n: "nat (MaxAttempts retry - 0) = Suc n" "N = int (Suc n)"
    using assms(1,2) unfolding retry_def n_def by simp_all
  have e1: "exchanges tr1 = exchanges tr"
    using finalize_body_exchanges[of env retry req tr] f by simp
  have trig: "\<forall>r. fst (Trigger retry r)" using assms(3) retry_def by simp
  have nc: "\<forall>j. Err_after cx j = None \<and> Done_wins cx j = None"
    using assms(4) f unfolding retry_def cx_def by simp
  have eq: "doWithRetry env c req resp tr = retry_loop env c retry cx 0 (req2, resp, tr1)"
    using f by (simp add: doWithRetry_def Let_def retry_def cx_def req2_def)
  obtain req' resp' tr' where res: "retry_loop env c retry cx 0 (req2, resp, tr1) = (req', resp', tr')"
    by (metis prod.exhaust)
  from retry_loop_exact[OF trig nc n(1), where env=env and c=c and req=req2 and resp=resp and tr=tr1] res
  have c1: "exchanges tr' = exchanges tr1 + Suc n"
    and c2: "\<exists>reqN trN. exchanges trN = exchanges tr1 + n \<and>
                do env c reqN trN = ((RawResponse resp', Err resp'), req', tr')"
    by simp_all
  from c2 obtain reqN trN where c3: "exchanges trN = exchanges tr1 + n"
    "do env c reqN trN = ((RawResponse resp', Err resp'), req', tr')" by blast
  have "int (exchanges tr') = int (exchanges tr) + N" using c1 e1 n(2) by simp
  moreover have "int (exchanges trN) = int (exchanges tr) + N - 1" using c3(1) e1 n(2) by simp
  ultimately show ?thesis
    unfolding eq res using c3(2) by auto
qed


theorem doWithRetry_exactly_N_exchanges_witness:
  "MaxAttempts (Merge (sample_env server_error) (Retry (sample_request 3 None))) = 3 \<and>
   (1::int) \<le> 3 \<and>
   (\<forall>r. fst (Trigger (Merge (sample_env server_error) (Retry (sample_request 3 None))) r)) \<and>
   bound_context (fst (finalize_body (sample_env server_error)
      (Merge (sample_env server_error) (Retry (sample_request 3 None))) (sample_request 3 None) [])) = Background \<and>
   exchanges (snd (snd (doWithRetry (sample_env server_error) sample_client (sample_request 3 None)
                          fresh_response []))) = 3"
proof -
  have h1: "MaxAttempts (Merge (sample_env server_error) (Retry (sample_request 3 None))) = 3"
    by (simp add: sample_env_def sample_request_def sample_retry_def)
  have h2: "(1::int) \<le> 3" by simp
  have h3: "\<forall>r. fst (Trigger (Merge (sample_env server_error) (Retry (sample_request 3 None))) r)"
    by (simp add: sample_env_def sample_request_def sample_retry_def)
  have b: "bound_context (fst (finalize_body (sample_env server_error)
      (Merge (sample_env server_error) (Retry (sample_request 3 None))) (sample_request 3 None) [])) = Background"
    by (simp add: finalize_body_def needs_buffering_def bound_context_def sample_request_def)
  have h4: "\<forall>j. Err_after (bound_context (fst (finalize_body (sample_env server_error)
      (Merge (sample_env server_error) (Retry (sample_request 3 None))) (sample_request 3 None) []))) j = None \<and>
     Done_wins (bound_context (fst (finalize_body (sample_env server_error)
      (Merge (sample_env server_error) (Retry (sample_request 3 None))) (sample_request 3 None) []))) j = None"
    unfolding b by (simp add: Background_def)
  have e: "exchanges [] = 0" by (simp add: exchanges_def)
  have "exchanges (snd (snd (doWithRetry (sample_env server_error) sample_client (sample_request 3 None)
                          fresh_response []))) = 3"
    using doWithRetry_exactly_N_exchanges [OF h1 h2 h3 h4, of sample_client fresh_response] e
    by (simp split: prod.splits)
  then show ?thesis using h1 h3 b by simp
qed


text \<open>
  C2. Take any attempt \<open>i\<close> of the loop, in any state, and let \<open>do\<close> return the raw
  response \<open>rawResponse\<close> and the error \<open>e\<close> (a transport error or none). If
  \<^verbatim>\<open>ctx.Err()\<close> is \<open>ce\<close> right after the exchange, the loop returns at once: the
  Response holds \<open>rawResponse\<close> and the error \<open>ce\<close>, whatever \<open>e\<close> was, and the attempt's
  exchange is the last one. If instead the attempt goes on to its backoff wait
  (not the last attempt, Trigger true) and the context is done before the timer,
  the loop returns from the wait: the stored error is \<open>ce\<close>, and again no exchange
  follows the attempt's own.
\<close>

theorem cancellation_stops_retry_loop:
  assumes "i < MaxAttempts retry" and "do env c req tr = ((rawResponse, e), req1, tr1)"
  shows "(Err_after cx i = Some ce \<longrightarrow>
            retry_loop env c retry cx i (req, resp, tr) =
              (req1, \<lparr>RawResponse = rawResponse, Err = Some ce\<rparr>, tr1) \<and>
            exchanges tr1 = Suc (exchanges tr)) \<and>
         (Err_after cx i = None \<and> i \<noteq> MaxAttempts retry - 1 \<and>
          Trigger retry \<lparr>RawResponse = rawResponse, Err = e\<rparr> = (True, resp2) \<and>
          Backoff retry (WaitTime retry) (MaxWaitTime retry) i resp2 = (d, resp3) \<and>
          Done_wins cx i = Some ce \<longrightarrow>
            retry_loop env c retry cx i (req, resp, tr) =
              (fst (reset_body req1 tr1), resp3\<lparr>Err := Some ce\<rparr>, snd (reset_body req1 tr1) @ [Wait i d]) \<and>
            exchanges (snd (reset_body req1 tr1) @ [Wait i d]) = Suc (exchanges tr))"
proof (intro conjI impI)
  assume a: "Err_after cx i = Some ce"
  show "retry_loop env c retry cx i (req, resp, tr) = (req1, \<lparr>RawResponse = rawResponse, Err = Some ce\<rparr>, tr1)"
    using loop_cancel_after[OF assms a, of resp] by (simp add: response_update_all)
  show "exchanges tr1 = Suc (exchanges tr)"
    using do_trace[OF assms(2)] by (simp add: exchanges_append exchanges_single)
next
  assume a: "Err_after cx i = None \<and> i \<noteq> MaxAttempts retry - 1 \<and>
          Trigger retry \<lparr>RawResponse = rawResponse, Err = e\<rparr> = (True, resp2) \<and>
          Backoff retry (WaitTime retry) (MaxWaitTime retry) i resp2 = (d, resp3) \<and>
          Done_wins cx i = Some ce"
  have i: "i < MaxAttempts retry - 1" using a assms(1) by linarith
  have t: "Trigger retry (resp\<lparr>RawResponse := rawResponse, Err := e\<rparr>) = (True, resp2)"
    using a by (simp add: response_update_all)
  have r: "reset_body req1 tr1 = (fst (reset_body req1 tr1), snd (reset_body req1 tr1))" by simp
  show "retry_loop env c retry cx i (req, resp, tr) =
              (fst (reset_body req1 tr1), resp3\<lparr>Err := Some ce\<rparr>, snd (reset_body req1 tr1) @ [Wait i d])"
    using loop_cancel_wait[OF i assms(2) _ t r] a by simp
  show "exchanges (snd (reset_body req1 tr1) @ [Wait i d]) = Suc (exchanges tr)"
    using do_trace[OF assms(2)] reset_body_exchanges[OF r]
    by (simp add: exchanges_append exchanges_single)
qed

theorem cancellation_stops_retry_loop_witness:
  "(0::int) < MaxAttempts (sample_retry 3) \<and>
   do failing_env sample_client (sample_request 3 None) [] =
     ((None, Some (Foreign 9)), sample_request 3 None, [Exchange None]) \<and>
   Err_after canceled_ctx 0 = Some Canceled \<and>
   retry_loop failing_env sample_client (sample_retry 3) canceled_ctx 0
       (sample_request 3 None, fresh_response, []) =
     (sample_request 3 None, \<lparr>RawResponse = None, Err = Some Canceled\<rparr>, [Exchange None]) \<and>
   Err_after expiring_ctx 0 = None \<and>
   (0::int) \<noteq> MaxAttempts (sample_retry 3) - 1 \<and>
   Trigger (sample_retry 3) \<lparr>RawResponse = None, Err = Some (Foreign 9)\<rparr> =
     (True, \<lparr>RawResponse = None, Err = Some (Foreign 9)\<rparr>) \<and>
   Backoff (sample_retry 3) (WaitTime (sample_retry 3)) (MaxWaitTime (sample_retry 3)) 0
       \<lparr>RawResponse = None, Err = Some (Foreign 9)\<rparr> =
     (10, \<lparr>RawResponse = None, Err = Some (Foreign 9)\<rparr>) \<and>
   Done_wins expiring_ctx 0 = Some DeadlineExceeded \<and>
   retry_loop failing_env sample_client (sample_retry 3) expiring_ctx 0
       (sample_request 3 None, fresh_response, []) =
     (sample_request 3 None, \<lparr>RawResponse = None, Err = Some DeadlineExceeded\<rparr>,
      [Exchange None, Wait 0 10])"
proof -
  have h1: "(0::int) < MaxAttempts (sample_retry 3)" by (simp add: sample_retry_def)
  have h2: "do failing_env sample_client (sample_request 3 None) [] =
     ((None, Some (Foreign 9)), sample_request 3 None, [Exchange None])"
    by (simp add: do_def failing_env_def sample_env_def sample_request_def)
  have c1: "Err_after canceled_ctx 0 = Some Canceled" by (simp add: canceled_ctx_def)
  have e1: "Err_after expiring_ctx 0 = None" by (simp add: expiring_ctx_def)
  have e2: "(0::int) \<noteq> MaxAttempts (sample_retry 3) - 1" by (simp add: sample_retry_def)
  have e3: "Trigger (sample_retry 3) \<lparr>RawResponse = None, Err = Some (Foreign 9)\<rparr> =
     (True, \<lparr>RawResponse = None, Err = Some (Foreign 9)\<rparr>)" by (simp add: sample_retry_def)
  have e4: "Backoff (sample_retry 3) (WaitTime (sample_retry 3)) (MaxWaitTime (sample_retry 3)) 0
       \<lparr>RawResponse = None, Err = Some (Foreign 9)\<rparr> =
     (10, \<lparr>RawResponse = None, Err = Some (Foreign 9)\<rparr>)" by (simp add: sample_retry_def)
  have e5: "Done_wins expiring_ctx 0 = Some DeadlineExceeded" by (simp add: expiring_ctx_def)
  have rb: "reset_body (sample_request 3 None) [Exchange None] = (sample_request 3 None, [Exchange None])"
    by (simp add: reset_body_def sample_request_def sample_raw_request_def)
  have a: "retry_loop failing_env sample_client (sample_retry 3) canceled_ctx 0
       (sample_request 3 None, fresh_response, []) =
     (sample_request 3 None, \<lparr>RawResponse = None, Err = Some Canceled\<rparr>, [Exchange None])"
    using cancellation_stops_retry_loop [OF h1 h2, where cx = canceled_ctx and ce = Canceled
        and resp = fresh_response] c1
    by simp
  have b: "retry_loop failing_env sample_client (sample_retry 3) expiring_ctx 0
       (sample_request 3 None, fresh_response, []) =
     (sample_request 3 None, \<lparr>RawResponse = None, Err = Some DeadlineExceeded\<rparr>,
      [Exchange None, Wait 0 10])"
    using cancellation_stops_retry_loop [OF h1 h2, where cx = expiring_ctx and ce = DeadlineExceeded
        and resp = fresh_response and d = 10
        and ?resp2.0 = "\<lparr>RawResponse = None, Err = Some (Foreign 9)\<rparr>"
        and ?resp3.0 = "\<lparr>RawResponse = None, Err = Some (Foreign 9)\<rparr>"]
      e1 e2 e3 e4 e5 rb
    by simp
  show ?thesis using h1 h2 c1 a e1 e2 e3 e4 e5 b by blast
qed







section \<open>Properties of the single exchange\<close>











end
